theory Spec2Isabelle
  imports Main "HOL-Library.Sublist" "HOL-Library.Multiset"
    "HOL-Library.Char_ord" "HOL-Library.List_Lexorder"
begin

section \<open>Strings\<close>

text \<open>
  Strings are lists of code units in the range of \<^typ>\<open>char\<close>; the case conversions
  below act on the ASCII letters, which is all the event names, probe names and tool
  names of the program contain.
\<close>

definition upper_letters :: string where
  "upper_letters = ''ABCDEFGHIJKLMNOPQRSTUVWXYZ''"

definition lower_letters :: string where
  "lower_letters = ''abcdefghijklmnopqrstuvwxyz''"

definition is_upper :: "char \<Rightarrow> bool" where
  "is_upper c = (c \<in> set upper_letters)"

definition toLowerChar :: "char \<Rightarrow> char" where
  "toLowerChar c = (case map_of (zip upper_letters lower_letters) c of Some l \<Rightarrow> l | None \<Rightarrow> c)"

definition toUpperChar :: "char \<Rightarrow> char" where
  "toUpperChar c = (case map_of (zip lower_letters upper_letters) c of Some u \<Rightarrow> u | None \<Rightarrow> c)"

definition toLowerCase :: "string \<Rightarrow> string" where
  "toLowerCase s = map toLowerChar s"


text \<open>\<open>xs.join(sep)\<close> of JavaScript.\<close>

fun join :: "string \<Rightarrow> string list \<Rightarrow> string" where
  "join sep [] = []"
| "join sep [x] = x"
| "join sep (x # y # ys) = x @ sep @ join sep (y # ys)"

text \<open>\<open>s.split(c)\<close> for a one-character separator: empty fields are kept.\<close>

fun split_on :: "char \<Rightarrow> string \<Rightarrow> string \<Rightarrow> string list" where
  "split_on sep cur [] = [cur]"
| "split_on sep cur (c # cs) =
     (if c = sep then cur # split_on sep [] cs else split_on sep (cur @ [c]) cs)"

text \<open>\<open>s.replace(pat, rep)\<close> with a string pattern: the first occurrence only.\<close>

fun replace_first :: "string \<Rightarrow> string \<Rightarrow> string \<Rightarrow> string" where
  "replace_first pat rep [] = (if pat = [] then rep else [])"
| "replace_first pat rep (c # cs) =
     (if prefix pat (c # cs) then rep @ drop (length pat) (c # cs)
      else c # replace_first pat rep cs)"

text \<open>Decimal rendering of a number inside a template literal.\<close>

definition digit_char :: "nat \<Rightarrow> char" where
  "digit_char d = ''0123456789'' ! d"

fun show_nat :: "nat \<Rightarrow> string" where
  "show_nat n = (if n < 10 then [digit_char n] else show_nat (n div 10) @ [digit_char (n mod 10)])"

declare show_nat.simps [simp del]

definition show_int :: "int \<Rightarrow> string" where
  "show_int i = (if i < 0 then CHR ''-'' # show_nat (nat (- i)) else show_nat (nat i))"

section \<open>Hook definitions\<close>

datatype HookEvent =
    SessionStart | SessionEnd | UserPromptSubmit
  | PreToolUse | PostToolUse | PostToolUseFailure | PermissionRequest
  | SubagentStart | SubagentStop | Notification | Stop | TaskCompleted
  | PreCompact | FileEdited | FileWatcherUpdated

text \<open>The string each member of the \<open>HookEvent\<close> union is at run time.\<close>

fun event_name :: "HookEvent \<Rightarrow> string" where
  "event_name SessionStart = ''SessionStart''"
| "event_name SessionEnd = ''SessionEnd''"
| "event_name UserPromptSubmit = ''UserPromptSubmit''"
| "event_name PreToolUse = ''PreToolUse''"
| "event_name PostToolUse = ''PostToolUse''"
| "event_name PostToolUseFailure = ''PostToolUseFailure''"
| "event_name PermissionRequest = ''PermissionRequest''"
| "event_name SubagentStart = ''SubagentStart''"
| "event_name SubagentStop = ''SubagentStop''"
| "event_name Notification = ''Notification''"
| "event_name Stop = ''Stop''"
| "event_name TaskCompleted = ''TaskCompleted''"
| "event_name PreCompact = ''PreCompact''"
| "event_name FileEdited = ''FileEdited''"
| "event_name FileWatcherUpdated = ''FileWatcherUpdated''"

datatype HookHandlerType = Command | Prompt | Agent

text \<open>
  \<open>HookHandler\<close>, with the fields the adapters and the engine read (\<open>model\<close>,
  \<open>statusMessage\<close>, \<open>async\<close> and \<open>once\<close> are carried through unread).
\<close>

record HookHandler =
  htype :: HookHandlerType
  command :: "string option"
  prompt :: "string option"
  timeout :: "nat option"

datatype HookFallbackStrategy = McpTool | SkillInjection | Ignore

record HookFallback =
  strategy :: HookFallbackStrategy
  fb_description :: "string option"

record ComponentMetadata =
  md_name :: string
  md_description :: string

record HookDefinition =
  metadata :: ComponentMetadata
  event :: HookEvent
  matcher :: "string option"
  handlers :: "HookHandler list"
  fallback :: "HookFallback option"

section \<open>Hook engine: running one handler\<close>

record HookExecutionResult =
  allowed :: bool
  reason :: "string option"
  rcontext :: "string option"

text \<open>The arguments of a probe call: the subject name and the other entries.\<close>

record HookArgs =
  toolName :: "string option"
  other_args :: "(string \<times> string) list"

text \<open>
  A child process, as the engine meets it, step by step. Each of the steps the engine
  performs may throw: starting the process (\<open>Bun.spawn\<close>), writing the arguments to its
  input and closing it, waiting for the exit, reading its standard output and, on exit
  code 2 only, reading its standard error. \<open>Some m\<close> and \<open>Inl m\<close> are an exception with
  message \<open>m\<close> at that step; \<open>exited\<close> holds the exit code of the child, \<open>stdout_text\<close>
  and \<open>stderr_text\<close> what it wrote. A step is reached only when the steps before it
  did not throw, so the exit code of a child is one thing and what the engine gets to
  see of it another. Every child is taken to end.
\<close>

record child =
  spawn_error :: "string option"
  stdin_error :: "string option"
  exited :: "string + int"
  stdout_text :: "string + string"
  stderr_text :: "string + string"

text \<open>
  The environment of the engine: the regular expressions of the host (\<open>None\<close>: the
  constructor throws on this pattern) and the processes, whose course may depend on
  the handlers run before.
\<close>

record env =
  regexp :: "string \<Rightarrow> (string \<Rightarrow> bool) option"
  spawn :: "HookHandler list \<Rightarrow> string \<Rightarrow> HookArgs option \<Rightarrow> child"

text \<open>\<open>a || b\<close> on strings: the empty string is falsy.\<close>

definition str_or :: "string \<Rightarrow> string \<Rightarrow> string" where
  "str_or a b = (if a \<noteq> [] then a else b)"

text \<open>The \<open>catch\<close> block of \<open>executeHandler\<close>.\<close>

definition caught :: "string \<Rightarrow> HookExecutionResult" where
  "caught m = \<lparr>allowed = True, reason = Some (''Hook execution error: '' @ m), rcontext = None\<rparr>"

definition executeHandler ::
  "env \<Rightarrow> HookHandler list \<Rightarrow> HookHandler \<Rightarrow> HookArgs option \<Rightarrow> HookExecutionResult" where
  "executeHandler e trace handler args =
     (case (htype handler, command handler) of
        (Command, Some cmd) \<Rightarrow>
          (if cmd \<noteq> [] then
             (let proc = spawn e trace cmd args
              in case spawn_error proc of
                   Some m \<Rightarrow> caught m
                 | None \<Rightarrow>
                (case stdin_error proc of
                   Some m \<Rightarrow> caught m
                 | None \<Rightarrow>
                (case exited proc of
                   Inl m \<Rightarrow> caught m
                 | Inr exitCode \<Rightarrow>
                (case stdout_text proc of
                   Inl m \<Rightarrow> caught m
                 | Inr out \<Rightarrow>
                     if exitCode = 0 then
                       \<lparr>allowed = True, reason = None,
                        rcontext = (if out \<noteq> [] then Some out else None)\<rparr>
                     else if exitCode = 2 then
                       (case stderr_text proc of
                          Inl m \<Rightarrow> caught m
                        | Inr err \<Rightarrow>
                            \<lparr>allowed = False,
                             reason = Some (str_or err (str_or out ''Hook blocked the action'')),
                             rcontext = None\<rparr>)
                     else
                       \<lparr>allowed = True,
                        reason = Some (''Hook warning: exit code '' @ show_int exitCode),
                        rcontext = None\<rparr>))))
           else \<lparr>allowed = True, reason = Some ''Hook type not yet supported in runtime'',
                 rcontext = None\<rparr>)
      | _ \<Rightarrow> \<lparr>allowed = True, reason = Some ''Hook type not yet supported in runtime'',
               rcontext = None\<rparr>)"

section \<open>Hook engine: the probe surface\<close>

record SchemaProperty =
  prop_type :: "string option"
  prop_description :: string

record ToolSchema =
  schema_type :: string
  properties :: "(string \<times> SchemaProperty) list"
  required :: "string list option"

record EmulationTool =
  tool_name :: string
  tool_description :: string
  inputSchema :: ToolSchema

text \<open>\<open>hook.fallback?.strategy\<close>\<close>

definition fallback_strategy :: "HookDefinition \<Rightarrow> HookFallbackStrategy option" where
  "fallback_strategy hook = map_option strategy (fallback hook)"

text \<open>
  A JavaScript \<open>Map\<close> iterates in insertion order: an association list, where setting a
  key that is present keeps its place.
\<close>

fun map_set :: "'k \<Rightarrow> 'v \<Rightarrow> ('k \<times> 'v) list \<Rightarrow> ('k \<times> 'v) list" where
  "map_set k v [] = [(k, v)]"
| "map_set k v ((k', v') # m) = (if k' = k then (k, v) # m else (k', v') # map_set k v m)"

definition group_step ::
  "(HookEvent \<times> HookDefinition list) list \<Rightarrow> HookDefinition
    \<Rightarrow> (HookEvent \<times> HookDefinition list) list" where
  "group_step eventGroups hook =
     (if fallback_strategy hook = Some Ignore then eventGroups
      else if fallback_strategy hook = Some SkillInjection then eventGroups
      else
        (let existing = (case map_of eventGroups (event hook) of Some hs \<Rightarrow> hs | None \<Rightarrow> [])
         in map_set (event hook) (existing @ [hook]) eventGroups))"

definition slugEvent :: "string \<Rightarrow> string" where
  "slugEvent ev =
     (let dashed = concat (map (\<lambda>c. if is_upper c then [CHR ''-'', c] else [c]) ev);
          lowered = toLowerCase dashed
      in if lowered \<noteq> [] \<and> hd lowered = CHR ''-'' then tl lowered else lowered)"

definition buildToolDescription :: "HookEvent \<Rightarrow> HookDefinition list \<Rightarrow> string" where
  "buildToolDescription ev hooks =
     (let descriptions = filter (\<lambda>d. d \<noteq> []) (map (\<lambda>h. md_description (metadata h)) hooks);
          hookNames = join '', '' (map (\<lambda>h. md_name (metadata h)) hooks)
      in ''[ai-ext hook emulation] Call this BEFORE '' @ event_name ev @ '' to check: ''
           @ str_or (join ''; '' descriptions) hookNames
           @ ''. Returns {allowed: boolean, reason?: string}.'')"

definition buildToolSchema :: "HookEvent \<Rightarrow> ToolSchema" where
  "buildToolSchema ev =
     (if ev = PreToolUse \<or> ev = PostToolUse \<or> ev = PostToolUseFailure then
        \<lparr>schema_type = ''object'',
         properties =
           [(''toolName'', \<lparr>prop_type = Some ''string'',
                            prop_description = ''Name of the tool being called''\<rparr>),
            (''toolInput'', \<lparr>prop_type = None,
                             prop_description = ''Input arguments to the tool''\<rparr>)],
         required = Some [''toolName'']\<rparr>
      else if ev = UserPromptSubmit then
        \<lparr>schema_type = ''object'',
         properties =
           [(''prompt'', \<lparr>prop_type = Some ''string'',
                          prop_description = ''The user prompt being submitted''\<rparr>)],
         required = None\<rparr>
      else
        \<lparr>schema_type = ''object'',
         properties =
           [(''context'', \<lparr>prop_type = Some ''string'',
                           prop_description = ''Contextual information for the hook''\<rparr>)],
         required = None\<rparr>)"

definition getEmulationTools :: "HookDefinition list \<Rightarrow> EmulationTool list" where
  "getEmulationTools hooks =
     map (\<lambda>(ev, hs).
            \<lparr>tool_name = ''ai-ext_hook_'' @ slugEvent (event_name ev),
             tool_description = buildToolDescription ev hs,
             inputSchema = buildToolSchema ev\<rparr>)
         (foldl group_step [] hooks)"

section \<open>Hook engine: executing a probe operation\<close>

definition capitalize :: "string \<Rightarrow> string" where
  "capitalize w = (case w of [] \<Rightarrow> [] | c # cs \<Rightarrow> toUpperChar c # cs)"

definition slugToEvent :: "string \<Rightarrow> string" where
  "slugToEvent slug = concat (map capitalize (split_on CHR ''-'' [] slug))"

datatype engine_error = InvalidRegExp string

text \<open>\<open>args?.toolName\<close>\<close>

definition args_toolName :: "HookArgs option \<Rightarrow> string option" where
  "args_toolName args = (case args of None \<Rightarrow> None | Some a \<Rightarrow> toolName a)"

text \<open>The callback of the filter over the hooks; \<open>Inl\<close>: the matcher is no regular expression.\<close>

definition hook_matches ::
  "env \<Rightarrow> string \<Rightarrow> HookArgs option \<Rightarrow> HookDefinition \<Rightarrow> engine_error + bool" where
  "hook_matches e ev args h =
     (if event_name (event h) \<noteq> ev then Inr False
      else
        (case (matcher h, args_toolName args) of
           (Some m, Some subject) \<Rightarrow>
             (if m \<noteq> [] \<and> subject \<noteq> [] then
                (case regexp e m of
                   None \<Rightarrow> Inl (InvalidRegExp m)
                 | Some test \<Rightarrow> Inr (test subject))
              else Inr True)
         | _ \<Rightarrow> Inr True))"

fun filter_hooks ::
  "env \<Rightarrow> string \<Rightarrow> HookArgs option \<Rightarrow> HookDefinition list
    \<Rightarrow> engine_error + HookDefinition list" where
  "filter_hooks e ev args [] = Inr []"
| "filter_hooks e ev args (h # hs) =
     (case hook_matches e ev args h of
        Inl err \<Rightarrow> Inl err
      | Inr keep \<Rightarrow>
          (case filter_hooks e ev args hs of
             Inl err \<Rightarrow> Inl err
           | Inr rest \<Rightarrow> Inr (if keep then h # rest else rest)))"

text \<open>
  The two nested loops over the matching hooks and their handlers. The trace is the
  list of handlers run so far; \<open>Some r\<close> is the early return on a deny.
\<close>

fun run_handlers ::
  "env \<Rightarrow> HookArgs option \<Rightarrow> HookHandler list \<Rightarrow> HookHandler list
    \<Rightarrow> HookExecutionResult option \<times> HookHandler list" where
  "run_handlers e args trace [] = (None, trace)"
| "run_handlers e args trace (handler # rest) =
     (let result = executeHandler e trace handler args
      in if \<not> allowed result then (Some result, trace @ [handler])
         else run_handlers e args (trace @ [handler]) rest)"

fun run_hooks ::
  "env \<Rightarrow> HookArgs option \<Rightarrow> HookHandler list \<Rightarrow> HookDefinition list
    \<Rightarrow> HookExecutionResult option \<times> HookHandler list" where
  "run_hooks e args trace [] = (None, trace)"
| "run_hooks e args trace (hook # rest) =
     (case run_handlers e args trace (handlers hook) of
        (Some result, trace') \<Rightarrow> (Some result, trace')
      | (None, trace') \<Rightarrow> run_hooks e args trace' rest)"

definition executeEmulatedHook ::
  "env \<Rightarrow> HookDefinition list \<Rightarrow> string \<Rightarrow> HookArgs option
    \<Rightarrow> engine_error + (HookExecutionResult \<times> HookHandler list)" where
  "executeEmulatedHook e hooks name args =
     (let slug = replace_first ''ai-ext_hook_'' [] name;
          ev = slugToEvent slug
      in case filter_hooks e ev args hooks of
           Inl err \<Rightarrow> Inl err
         | Inr matchingHooks \<Rightarrow>
             if matchingHooks = [] then
               Inr (\<lparr>allowed = True, reason = Some ''No matching hooks'', rcontext = None\<rparr>, [])
             else
               (case run_hooks e args [] matchingHooks of
                  (Some result, trace) \<Rightarrow> Inr (result, trace)
                | (None, trace) \<Rightarrow>
                    Inr (\<lparr>allowed = True, reason = None, rcontext = None\<rparr>, trace)))"

section \<open>Hook engine: the notions the properties are stated with\<close>

text \<open>A hook gets a probe operation unless its fallback strategy is \<open>ignore\<close> or \<open>skill-injection\<close>.\<close>

definition needs_surface :: "HookDefinition \<Rightarrow> bool" where
  "needs_surface h =
     (fallback_strategy h \<noteq> Some Ignore \<and> fallback_strategy h \<noteq> Some SkillInjection)"

text \<open>The distinct members of a list, each at the place of its first occurrence.\<close>

definition first_occurrences :: "'a list \<Rightarrow> 'a list" where
  "first_occurrences xs = rev (remdups (rev xs))"

text \<open>The event names in kebab case, written out.\<close>

fun kebab_case_name :: "HookEvent \<Rightarrow> string" where
  "kebab_case_name SessionStart = ''session-start''"
| "kebab_case_name SessionEnd = ''session-end''"
| "kebab_case_name UserPromptSubmit = ''user-prompt-submit''"
| "kebab_case_name PreToolUse = ''pre-tool-use''"
| "kebab_case_name PostToolUse = ''post-tool-use''"
| "kebab_case_name PostToolUseFailure = ''post-tool-use-failure''"
| "kebab_case_name PermissionRequest = ''permission-request''"
| "kebab_case_name SubagentStart = ''subagent-start''"
| "kebab_case_name SubagentStop = ''subagent-stop''"
| "kebab_case_name Notification = ''notification''"
| "kebab_case_name Stop = ''stop''"
| "kebab_case_name TaskCompleted = ''task-completed''"
| "kebab_case_name PreCompact = ''pre-compact''"
| "kebab_case_name FileEdited = ''file-edited''"
| "kebab_case_name FileWatcherUpdated = ''file-watcher-updated''"

text \<open>
  The events the declaration of \<open>HookEvent\<close> lists under its heading \<open>Tool lifecycle\<close>.
\<close>

definition tool_lifecycle_event :: "HookEvent \<Rightarrow> bool" where
  "tool_lifecycle_event ev =
     (ev = PreToolUse \<or> ev = PostToolUse \<or> ev = PostToolUseFailure \<or> ev = PermissionRequest)"

text \<open>The three input shapes: a required subject name, a free text, an opaque context.\<close>

definition subject_schema :: ToolSchema where
  "subject_schema =
     \<lparr>schema_type = ''object'',
      properties =
        [(''toolName'', \<lparr>prop_type = Some ''string'',
                         prop_description = ''Name of the tool being called''\<rparr>),
         (''toolInput'', \<lparr>prop_type = None,
                          prop_description = ''Input arguments to the tool''\<rparr>)],
      required = Some [''toolName'']\<rparr>"

definition prompt_schema :: ToolSchema where
  "prompt_schema =
     \<lparr>schema_type = ''object'',
      properties =
        [(''prompt'', \<lparr>prop_type = Some ''string'',
                       prop_description = ''The user prompt being submitted''\<rparr>)],
      required = None\<rparr>"

definition context_schema :: ToolSchema where
  "context_schema =
     \<lparr>schema_type = ''object'',
      properties =
        [(''context'', \<lparr>prop_type = Some ''string'',
                        prop_description = ''Contextual information for the hook''\<rparr>)],
      required = None\<rparr>"

text \<open>The name of the probe operation of an event.\<close>

definition probe_name :: "HookEvent \<Rightarrow> string" where
  "probe_name ev = ''ai-ext_hook_'' @ kebab_case_name ev"

text \<open>
  A hook is selected for an event name and a subject when its event is that one and
  its matcher, if it has one, matches the subject.
\<close>

definition hook_selected :: "env \<Rightarrow> string \<Rightarrow> string \<Rightarrow> HookDefinition \<Rightarrow> bool" where
  "hook_selected e ev subject h =
     (event_name (event h) = ev \<and>
      (case matcher h of
         None \<Rightarrow> True
       | Some m \<Rightarrow>
           if m = [] then True
           else (case regexp e m of Some test \<Rightarrow> test subject | None \<Rightarrow> False)))"

text \<open>The result of the handler at position \<open>i\<close> of a sequence run from an empty trace.\<close>

definition result_at :: "env \<Rightarrow> HookArgs option \<Rightarrow> HookHandler list \<Rightarrow> nat \<Rightarrow> HookExecutionResult" where
  "result_at e args hs i = executeHandler e (take i hs) (hs ! i) args"

section \<open>Untyped values\<close>

text \<open>
  What a parsed YAML document holds, and what the parsers read and build: the values
  of JavaScript, as far as the program meets them. An object is the list of its own
  properties in insertion order.
\<close>

datatype jsval =
    JUndefined | JNull | JBool bool | JNum int | JStr string
  | JArr "jsval list" | JObj "(string \<times> jsval) list"

text \<open>Truthiness, as \<open>if (v)\<close>, \<open>!v\<close>, \<open>a || b\<close> and \<open>filter(Boolean)\<close> test it.\<close>

fun truthy :: "jsval \<Rightarrow> bool" where
  "truthy JUndefined = False"
| "truthy JNull = False"
| "truthy (JBool b) = b"
| "truthy (JNum n) = (n \<noteq> 0)"
| "truthy (JStr s) = (s \<noteq> [])"
| "truthy (JArr xs) = True"
| "truthy (JObj kvs) = True"

definition js_or :: "jsval \<Rightarrow> jsval \<Rightarrow> jsval" where
  "js_or a b = (if truthy a then a else b)"

fun typeof :: "jsval \<Rightarrow> string" where
  "typeof JUndefined = ''undefined''"
| "typeof JNull = ''object''"
| "typeof (JBool b) = ''boolean''"
| "typeof (JNum n) = ''number''"
| "typeof (JStr s) = ''string''"
| "typeof (JArr xs) = ''object''"
| "typeof (JObj kvs) = ''object''"

text \<open>
  Reading a property. On an object it is the value of the key, \<open>undefined\<close> when the key
  is absent; the program reads the properties used here from objects and arrays only,
  and an array has none of them.
\<close>

fun get_prop :: "jsval \<Rightarrow> string \<Rightarrow> jsval" where
  "get_prop (JObj kvs) k = (case map_of kvs k of Some v \<Rightarrow> v | None \<Rightarrow> JUndefined)"
| "get_prop v k = JUndefined"

text \<open>
  The class \<open>\s\<close> of regular expressions, on code units below 256: tab, line feed,
  vertical tab, form feed, carriage return, space and the no-break space.
\<close>

definition is_space :: "char \<Rightarrow> bool" where
  "is_space c = (c \<in> set [CHR 0x09, CHR 0x0A, CHR 0x0B, CHR 0x0C, CHR 0x0D, CHR 0x20, CHR 0xA0])"

text \<open>\<open>s.split(/\s+/)\<close>: the fields between the maximal runs of whitespace, empty ones kept.\<close>

function split_spaces :: "string \<Rightarrow> string \<Rightarrow> string list" where
  "split_spaces cur [] = [cur]"
| "split_spaces cur (c # cs) =
     (if is_space c then cur # split_spaces [] (dropWhile is_space cs)
      else split_spaces (cur @ [c]) cs)"
  by pat_completeness auto
termination
  by (relation "measure (\<lambda>(cur, s). length s)")
     (auto simp: le_imp_less_Suc length_dropWhile_le)

section \<open>Component parsers: tool access\<close>

definition extractToolAccess :: "jsval \<Rightarrow> jsval" where
  "extractToolAccess fm =
     (let allowedTools = js_or (get_prop fm ''allowed-tools'') (get_prop fm ''allowedTools'');
          tools = get_prop fm ''tools''
      in if truthy allowedTools \<and> typeof allowedTools = ''string'' then
           (case allowedTools of
              JStr s \<Rightarrow>
                JObj [(''allowed'', JArr (map JStr (filter (\<lambda>w. w \<noteq> []) (split_spaces [] s))))]
            | _ \<Rightarrow> JUndefined)
         else if truthy tools \<and> typeof tools = ''object'' then
           JObj [(''allowed'', get_prop tools ''allowed''), (''disallowed'', get_prop tools ''disallowed'')]
         else JUndefined)"

text \<open>
  A \<open>ToolAccess\<close> value read as its type describes it: the two optional fields
  \<open>allowed\<close> and \<open>disallowed\<close>, where an absent field and one holding \<open>undefined\<close> are the
  same, as they are for every read of the field and in the serialized form. \<open>None\<close>:
  there is no tool access at all (\<open>undefined\<close>).
\<close>

definition ToolAccess_fields :: "jsval \<Rightarrow> (jsval \<times> jsval) option" where
  "ToolAccess_fields v =
     (case v of JObj kvs \<Rightarrow> Some (get_prop v ''allowed'', get_prop v ''disallowed'') | _ \<Rightarrow> None)"

section \<open>The intermediate representation, as the adapters read it\<close>

record ExtensionManifest =
  mf_name :: string
  mf_version :: string
  mf_description :: string

record ToolAccess =
  ta_allowed :: "string list option"
  ta_disallowed :: "string list option"

record SkillDefinition =
  skill_metadata :: ComponentMetadata
  skill_tools :: "ToolAccess option"
  skill_instructions :: string
  skill_hooks :: "HookDefinition list option"

record AgentDefinition =
  agent_metadata :: ComponentMetadata
  agent_tools :: "ToolAccess option"
  agent_instructions :: string
  agent_hooks :: "HookDefinition list option"
  whenToUse :: "string option"

record ToolExposure =
  mcp :: "bool option"
  native :: "bool option"

record ToolDefinition =
  tool_metadata :: ComponentMetadata
  exposure :: "ToolExposure option"

record PermissionRules =
  deny :: "string list option"
  ask :: "string list option"
  allow :: "string list option"

record PolicyDefinition =
  policy_metadata :: ComponentMetadata
  permissions :: "PermissionRules option"
  policy_instructions :: "string option"

text \<open>The rules are a \<open>Map\<close> from relative path to content, in insertion order.\<close>

record ExtensionIR =
  ir_manifest :: ExtensionManifest
  ir_skills :: "SkillDefinition list"
  ir_agents :: "AgentDefinition list"
  ir_hooks :: "HookDefinition list"
  ir_tools :: "ToolDefinition list"
  ir_policies :: "PolicyDefinition list"
  ir_rules :: "(string \<times> string) list"

datatype BuildSeverity = SevInfo | SevWarn | SevError

record BuildWarning =
  bw_component :: string
  bw_message :: string
  bw_severity :: BuildSeverity

record RuntimeRequirement =
  feature :: string
  rq_reason :: string
  rq_component :: string

record TargetOutput =
  files :: "(string \<times> string) list"
  warnings :: "BuildWarning list"
  runtimeRequirements :: "RuntimeRequirement list"

section \<open>The KiloCode adapter\<close>

text \<open>
  The functions that render the text of a file (\<open>emitSkill\<close>, \<open>emitModes\<close> after
  \<open>agentToMode\<close>, \<open>emitPolicyAsRules\<close>) and the serialized server configuration are
  parameters of the adapter: which files it writes, which warnings and which
  compensation requirements it gives do not depend on them.
\<close>

record renderers =
  emitSkill :: "SkillDefinition \<Rightarrow> string"
  emitModes :: "AgentDefinition list \<Rightarrow> string"
  emitPolicyAsRules :: "PolicyDefinition \<Rightarrow> string"
  mcpConfig_json :: string

text \<open>The warning \<open>agentToMode\<close> pushes for an agent with hooks of its own.\<close>

definition agent_warnings :: "AgentDefinition \<Rightarrow> BuildWarning list" where
  "agent_warnings agent =
     (case agent_hooks agent of
        Some hs \<Rightarrow>
          if length hs > 0 then
            [\<lparr>bw_component = ''agent:'' @ md_name (agent_metadata agent),
              bw_message = ''Agent-scoped hooks are not supported in KiloCode. ''
                 @ show_nat (length hs) @ '' hook(s) will require runtime bridge.'',
              bw_severity = SevWarn\<rparr>]
          else []
      | None \<Rightarrow> [])"

definition policy_step ::
  "renderers \<Rightarrow> (string \<times> string) list \<times> BuildWarning list \<Rightarrow> PolicyDefinition
    \<Rightarrow> (string \<times> string) list \<times> BuildWarning list" where
  "policy_step R acc policy =
     (let fs = (case policy_instructions policy of
                  Some i \<Rightarrow>
                    if i \<noteq> [] then
                      map_set (''.kilocode/rules/policy-'' @ md_name (policy_metadata policy) @ ''.md'')
                        (emitPolicyAsRules R policy) (fst acc)
                    else fst acc
                | None \<Rightarrow> fst acc);
          ws = (case permissions policy of
                  Some p \<Rightarrow>
                    snd acc @
                    [\<lparr>bw_component = ''policy:'' @ md_name (policy_metadata policy),
                      bw_message = ''KiloCode does not support granular permission patterns. Policies are emitted as rule instructions. Tool restrictions are mapped to mode groups where possible.'',
                      bw_severity = SevWarn\<rparr>]
                | None \<Rightarrow> snd acc)
      in (fs, ws))"

text \<open>\<open>emitTools\<close>: whether a server configuration is emitted, and the requirement pushed.\<close>

definition mcpTools :: "ToolDefinition list \<Rightarrow> ToolDefinition list" where
  "mcpTools tools =
     filter (\<lambda>t. \<not> (case exposure t of Some x \<Rightarrow> mcp x = Some False | None \<Rightarrow> False)) tools"

definition emitTools_requirements :: "ToolDefinition list \<Rightarrow> RuntimeRequirement list" where
  "emitTools_requirements tools =
     (if length (mcpTools tools) = 0 then []
      else [\<lparr>feature = ''tool-server'',
             rq_reason = show_nat (length (mcpTools tools)) @ '' tool(s) require MCP server exposure'',
             rq_component = ''tools''\<rparr>])"

text \<open>Steps 1 to 3 of the adapter: the files of the skills, the agents and the rules.\<close>

definition emit_skills_agents_rules :: "renderers \<Rightarrow> ExtensionIR \<Rightarrow> (string \<times> string) list" where
  "emit_skills_agents_rules R ir =
     (let files1 = foldl (\<lambda>fs skill.
                       map_set (''.kilocode/skills/'' @ md_name (skill_metadata skill) @ ''/SKILL.md'')
                         (emitSkill R skill) fs) [] (ir_skills ir);
          files2 = (if length (ir_agents ir) > 0
                    then map_set ''.kilocodemodes'' (emitModes R (ir_agents ir)) files1
                    else files1)
      in foldl (\<lambda>fs (name, content). map_set (''.kilocode/rules/'' @ name) content fs)
           files2 (ir_rules ir))"

definition kilocode_compile :: "renderers \<Rightarrow> ExtensionIR \<Rightarrow> TargetOutput" where
  "kilocode_compile R ir =
     (let files3 = emit_skills_agents_rules R ir;
          warnings2 = concat (map agent_warnings (ir_agents ir));
          warnings4 = (if length (ir_hooks ir) > 0 then
                         warnings2 @
                         [\<lparr>bw_component = ''hooks'',
                           bw_message = ''KiloCode does not support hooks natively. Hooks with fallback strategy 'mcp-tool' will be bridged via the ai-ext runtime MCP server. Hooks with 'skill-injection' will be added as skill instructions. Hooks with 'ignore' will be skipped.'',
                           bw_severity = SevWarn\<rparr>]
                       else warnings2);
          requirements4 = (if length (ir_hooks ir) > 0 then
                             [\<lparr>feature = ''hook-engine'',
                               rq_reason = show_nat (length (ir_hooks ir))
                                 @ '' hook(s) require runtime emulation (KiloCode has no native hook support)'',
                               rq_component = ''hooks''\<rparr>]
                           else []);
          policies5 = foldl (policy_step R) (files3, warnings4) (ir_policies ir);
          files6 = (if length (mcpTools (ir_tools ir)) = 0 then fst policies5
                    else map_set ''.kilocode/mcp.json'' (mcpConfig_json R) (fst policies5))
      in \<lparr>files = files6, warnings = snd policies5,
          runtimeRequirements = requirements4 @ emitTools_requirements (ir_tools ir)\<rparr>)"

text \<open>The number a text starts with.\<close>

definition digit_value :: "char \<Rightarrow> nat option" where
  "digit_value c = map_of (zip ''0123456789'' [0, 1, 2, 3, 4, 5, 6, 7, 8, 9]) c"

fun leading_digits :: "string \<Rightarrow> nat list" where
  "leading_digits [] = []"
| "leading_digits (c # cs) =
     (case digit_value c of Some d \<Rightarrow> d # leading_digits cs | None \<Rightarrow> [])"

definition leading_number :: "string \<Rightarrow> nat" where
  "leading_number s = foldl (\<lambda>acc d. 10 * acc + d) 0 (leading_digits s)"

section \<open>Validation\<close>

datatype Severity = SevErrorFinding | SevWarningFinding

record ValidationError =
  ve_path :: string
  ve_message :: string
  ve_severity :: Severity

record ValidationResult =
  vr_valid :: bool
  vr_errors :: "ValidationError list"
  vr_warnings :: "ValidationError list"



definition error :: "string \<Rightarrow> string \<Rightarrow> ValidationError" where
  "error p m = \<lparr>ve_path = p, ve_message = m, ve_severity = SevErrorFinding\<rparr>"

definition warning :: "string \<Rightarrow> string \<Rightarrow> ValidationError" where
  "warning p m = \<lparr>ve_path = p, ve_message = m, ve_severity = SevWarningFinding\<rparr>"








section \<open>Component parsers: skills\<close>






section \<open>The file system and the libraries\<close>

type_synonym path = string

text \<open>
  What is found at a path: a file, or a directory with its entries in the order in
  which the directory is read.
\<close>

datatype fsnode = FileNode | DirNode "(string \<times> fsnode) list"

text \<open>The contents of the files, which resolution and compilation read and write.\<close>

type_synonym disk = "path \<Rightarrow> string option"

text \<open>
  The surroundings of resolution. \<open>node_at\<close> is the directory structure, as
  \<open>existsSync\<close>, \<open>readdirSync\<close> and \<open>statSync\<close> show it; \<open>path_resolve\<close> is
  \<open>path.resolve\<close>; \<open>parseYaml\<close> and \<open>matter\<close> are the YAML and front-matter libraries
  (\<open>Inl\<close>: the message of the exception thrown). The repair of unquoted descriptions
  rests on two functions of the schema package whose text is not at hand, and enters
  as a parameter. So do the parser of inline hooks and, for the kinds other than
  skills, the parser and the validator of the kind (given the label of the kind): what
  is proved of resolution holds whatever they are.
\<close>

record world =
  node_at :: "path \<Rightarrow> fsnode option"
  path_resolve :: "path \<Rightarrow> path \<Rightarrow> path"
  parseYaml :: "string \<Rightarrow> string + jsval"
  matter :: "string \<Rightarrow> string + (jsval \<times> string)"
  fixYamlDescriptionsInFrontmatter :: "string \<Rightarrow> string"
  parseInlineHooks :: "jsval \<Rightarrow> string + jsval"
  parse_kind :: "string \<Rightarrow> jsval \<Rightarrow> string \<Rightarrow> string + jsval"
  validate_kind :: "string \<Rightarrow> jsval \<Rightarrow> ValidationResult"





section \<open>Source loader\<close>

definition trim :: "string \<Rightarrow> string" where
  "trim s = rev (dropWhile is_space (rev (dropWhile is_space s)))"

definition parseMarkdownFile ::
  "world \<Rightarrow> bool \<Rightarrow> disk \<Rightarrow> path \<Rightarrow> (string + (jsval \<times> string)) \<times> disk" where
  "parseMarkdownFile w fixYamlDescriptions d filePath =
     (case d filePath of
        None \<Rightarrow> (Inl (''ENOENT: no such file or directory, open '' @ filePath), d)
      | Some raw \<Rightarrow>
          (let fixed = fixYamlDescriptionsInFrontmatter w raw;
               rewrite = (fixYamlDescriptions \<and> fixed \<noteq> raw);
               d' = (if rewrite then d(filePath \<mapsto> fixed) else d);
               contentToParse = (if rewrite then fixed else raw)
           in case matter w contentToParse of
                Inl m \<Rightarrow> (Inl m, d')
              | Inr (data, content) \<Rightarrow> (Inr (data, trim content), d')))"







section \<open>Resolver\<close>

text \<open>A value inside a template literal.\<close>

fun js_toString :: "jsval \<Rightarrow> string" where
  "js_toString JUndefined = ''undefined''"
| "js_toString JNull = ''null''"
| "js_toString (JBool b) = (if b then ''true'' else ''false'')"
| "js_toString (JNum n) = show_int n"
| "js_toString (JStr s) = s"
| "js_toString (JArr xs) =
     join '','' (map (\<lambda>x. if x = JUndefined \<or> x = JNull then [] else js_toString x) xs)"
| "js_toString (JObj kvs) = ''[object Object]''"

record ResolveError =
  re_component :: string
  re_file :: string
  re_message :: string
  re_severity :: Severity



definition collectErrors :: "string \<Rightarrow> string \<Rightarrow> ValidationResult \<Rightarrow> ResolveError list" where
  "collectErrors component file validation =
     map (\<lambda>err. \<lparr>re_component = component, re_file = file,
                  re_message = ve_path err @ '': '' @ ve_message err,
                  re_severity = SevErrorFinding\<rparr>) (vr_errors validation)
     @ map (\<lambda>warn. \<lparr>re_component = component, re_file = file,
                     re_message = ve_path warn @ '': '' @ ve_message warn,
                     re_severity = SevWarningFinding\<rparr>) (vr_warnings validation)"

text \<open>The finding pushed when a file throws.\<close>

definition failed_to_parse :: "string \<Rightarrow> string \<Rightarrow> string \<Rightarrow> ResolveError" where
  "failed_to_parse component file m =
     \<lparr>re_component = component, re_file = file, re_message = ''Failed to parse: '' @ m,
      re_severity = SevErrorFinding\<rparr>"





text \<open>The same for a kind whose parser and validator are parameters.\<close>

definition kind_file ::
  "world \<Rightarrow> bool \<Rightarrow> string \<Rightarrow> disk \<Rightarrow> path \<Rightarrow> ResolveError list \<times> jsval option \<times> disk" where
  "kind_file w fixYaml kind d file =
     (case parseMarkdownFile w fixYaml d file of
        (Inl m, d') \<Rightarrow> ([failed_to_parse kind file m], None, d')
      | (Inr (fm, body), d') \<Rightarrow>
          (case parse_kind w kind fm body of
             Inl m \<Rightarrow> ([failed_to_parse kind file m], None, d')
           | Inr c \<Rightarrow>
               (collectErrors
                  (kind @ '':'' @ js_toString (get_prop (get_prop c ''metadata'') ''name''))
                  file (validate_kind w kind c),
                Some c, d')))"



section \<open>Compiler orchestrator\<close>

record BuildOptions =
  target :: string
  sourceDir :: path
  outDir :: "path option"
  verbose :: bool
  dryRun :: bool
  fixYamlDescriptions :: bool









section \<open>Resolver: the notions the properties are stated with\<close>



text \<open>
  The body of a loop over files is local when what it finds in a file depends on the
  content of that file only, and when it leaves the other files as they are.
\<close>

definition file_local ::
  "(disk \<Rightarrow> path \<Rightarrow> ResolveError list \<times> jsval option \<times> disk) \<Rightarrow> bool" where
  "file_local P =
     ((\<forall>d d' f. d' f = d f \<longrightarrow>
          fst (P d' f) = fst (P d f) \<and> fst (snd (P d' f)) = fst (snd (P d f)))
      \<and> (\<forall>d f g. g \<noteq> f \<longrightarrow> snd (snd (P d f)) g = d g))"

section \<open>Concrete inputs\<close>

text \<open>
  A small environment: a pattern matches the subject equal to it, and the command
  line decides the course of the process. The child of \<open>exit 2 deaf\<close> ends with exit
  code 2 and \<open>blocked\<close> on its standard error like that of \<open>exit 2\<close>, but it has closed
  its input, and writing the arguments to it throws.
\<close>

definition ran :: "int \<Rightarrow> string \<Rightarrow> string \<Rightarrow> child" where
  "ran code out err =
     \<lparr>spawn_error = None, stdin_error = None, exited = Inr code, stdout_text = Inr out,
      stderr_text = Inr err\<rparr>"

definition demo_env :: env where
  "demo_env = \<lparr>regexp = (\<lambda>p. Some (\<lambda>s. s = p)),
     spawn = (\<lambda>t c a. if c = ''exit 0'' then ran 0 ''ok'' []
                       else if c = ''exit 2'' then ran 2 [] ''blocked''
                       else if c = ''exit 7'' then ran 7 [] []
                       else if c = ''exit 2 deaf''
                         then (ran 2 [] ''blocked'')\<lparr>stdin_error := Some ''write EPIPE''\<rparr>
                       else (ran 0 [] [])\<lparr>spawn_error := Some ''spawn failed''\<rparr>)\<rparr>"

definition cmd_handler :: "string \<Rightarrow> HookHandler" where
  "cmd_handler c = \<lparr>htype = Command, command = Some c, prompt = None, timeout = None\<rparr>"

definition demo_hook ::
  "string \<Rightarrow> HookEvent \<Rightarrow> string option \<Rightarrow> string list \<Rightarrow> HookFallbackStrategy option
    \<Rightarrow> HookDefinition" where
  "demo_hook n ev m cmds st =
     \<lparr>metadata = \<lparr>md_name = n, md_description = []\<rparr>, event = ev, matcher = m,
      handlers = map cmd_handler cmds,
      fallback = map_option (\<lambda>s. \<lparr>strategy = s, fb_description = None\<rparr>) st\<rparr>"





text \<open>An extension of two hooks and nothing else, and renderers that write fixed texts.\<close>

definition demo_renderers :: renderers where
  "demo_renderers =
     \<lparr>emitSkill = (\<lambda>s. ''skill''), emitModes = (\<lambda>a. ''modes''),
      emitPolicyAsRules = (\<lambda>p. ''policy''), mcpConfig_json = ''{}''\<rparr>"

definition demo_ir :: ExtensionIR where
  "demo_ir =
     \<lparr>ir_manifest = \<lparr>mf_name = ''demo'', mf_version = ''0.1.0'', mf_description = ''A demo''\<rparr>,
      ir_skills = [], ir_agents = [],
      ir_hooks = [demo_hook ''lint'' PreToolUse (Some ''Edit'') [''exit 2''] (Some McpTool),
                  demo_hook ''quiet'' Stop None [''exit 0''] (Some Ignore)],
      ir_tools = [], ir_policies = [], ir_rules = []\<rparr>"








section \<open>Lemmas on the hook engine\<close>

lemma first_occurrences_snoc:
  "first_occurrences (xs @ [x]) =
     (if x \<in> set xs then first_occurrences xs else first_occurrences xs @ [x])"
  by (simp add: first_occurrences_def)

lemma first_occurrences_props:
  "distinct (first_occurrences xs)" "set (first_occurrences xs) = set xs"
  by (simp_all add: first_occurrences_def)

lemma map_of_keyed:
  "map_of (map (\<lambda>k. (k, f k)) ks) k = (if k \<in> set ks then Some (f k) else None)"
  by (induction ks) auto

lemma map_set_keyed:
  "distinct ks \<Longrightarrow>
   map_set k v (map (\<lambda>x. (x, f x)) ks) =
     (if k \<in> set ks then map (\<lambda>x. (x, if x = k then v else f x)) ks
      else map (\<lambda>x. (x, f x)) ks @ [(k, v)])"
  by (induction ks) auto

lemma group_hooks_eq:
  "foldl group_step [] hooks =
     map (\<lambda>ev. (ev, filter (\<lambda>h. event h = ev) (filter needs_surface hooks)))
         (first_occurrences (map event (filter needs_surface hooks)))"
proof (induction hooks rule: rev_induct)
  case Nil
  show ?case by (simp add: first_occurrences_def)
next
  case (snoc h hs)
  let ?S = "filter needs_surface hs"
  let ?E = "first_occurrences (map event ?S)"
  show ?case
  proof (cases "needs_surface h")
    case False
    then have "group_step (foldl group_step [] hs) h = foldl group_step [] hs"
      by (auto simp: group_step_def needs_surface_def)
    with False snoc show ?thesis by simp
  next
    case True
    have d: "distinct ?E" by (rule first_occurrences_props)
    have s: "set ?E = event ` set ?S" by (simp add: first_occurrences_props)
    let ?G = "map (\<lambda>ev. (ev, filter (\<lambda>h'. event h' = ev) ?S)) ?E"
    have G: "foldl group_step [] hs = ?G" by (rule snoc.IH)
    have step: "group_step ?G h =
        map_set (event h) ((case map_of ?G (event h) of Some x \<Rightarrow> x | None \<Rightarrow> []) @ [h]) ?G"
      using True by (simp add: group_step_def needs_surface_def Let_def)
    let ?F' = "\<lambda>ev. (ev, filter (\<lambda>h'. event h' = ev) (?S @ [h]))"
    have lhs: "foldl group_step [] (hs @ [h]) = group_step ?G h"
      by (simp add: G)
    have S': "filter needs_surface (hs @ [h]) = ?S @ [h]"
      using True by simp
    show ?thesis
    proof (cases "event h \<in> set ?E")
      case in_E: True
      have "group_step ?G h =
          map (\<lambda>x. (x, if x = event h then filter (\<lambda>h'. event h' = event h) ?S @ [h]
                        else filter (\<lambda>h'. event h' = x) ?S)) ?E"
        using in_E d by (simp only: step map_of_keyed map_set_keyed if_True option.case)
      also have "\<dots> = map ?F' ?E"
        by (rule map_cong) auto
      finally have a: "group_step ?G h = map ?F' ?E" .
      have "first_occurrences (map event (?S @ [h])) = ?E"
        using in_E s by (simp add: first_occurrences_snoc)
      then show ?thesis
        by (simp only: lhs S' a)
    next
      case not_E: False
      then have "event h \<notin> event ` set ?S" using s by simp
      then have empty: "filter (\<lambda>h'. event h' = event h) ?S = []"
        unfolding filter_empty_conv by (metis imageI)
      have a: "group_step ?G h = ?G @ [(event h, [h])]"
        using not_E d by (simp only: step map_of_keyed map_set_keyed if_False option.case append_Nil)
      have b: "?G = map ?F' ?E"
        using not_E by (intro map_cong) auto
      have c: "(event h, [h]) = ?F' (event h)"
        using empty by simp
      have "first_occurrences (map event (?S @ [h])) = ?E @ [event h]"
        using not_E s by (simp add: first_occurrences_snoc)
      then have "map ?F' (first_occurrences (map event (?S @ [h]))) = ?G @ [(event h, [h])]"
        using b c by simp
      then show ?thesis
        by (simp only: lhs S' a)
    qed
  qed
qed

lemma slugEvent_kebab: "slugEvent (event_name ev) = kebab_case_name ev"
  by (cases ev) (simp_all add: slugEvent_def toLowerCase_def toLowerChar_def is_upper_def upper_letters_def lower_letters_def)

lemma buildToolSchema_cases:
  "buildToolSchema ev =
     (if ev = PreToolUse \<or> ev = PostToolUse \<or> ev = PostToolUseFailure then subject_schema
      else if ev = UserPromptSubmit then prompt_schema else context_schema)"
  by (simp add: buildToolSchema_def subject_schema_def prompt_schema_def context_schema_def)

lemma join_empty_iff: "\<forall>x\<in>set xs. x \<noteq> [] \<Longrightarrow> join sep xs = [] \<longleftrightarrow> xs = []"
  by (induction sep xs rule: join.induct) auto

lemma getEmulationTools_eq:
  "getEmulationTools hooks =
     map (\<lambda>ev. \<lparr>tool_name = ''ai-ext_hook_'' @ kebab_case_name ev,
                tool_description =
                  buildToolDescription ev (filter (\<lambda>h. event h = ev) (filter needs_surface hooks)),
                inputSchema =
                  (if ev = PreToolUse \<or> ev = PostToolUse \<or> ev = PostToolUseFailure
                   then subject_schema
                   else if ev = UserPromptSubmit then prompt_schema else context_schema)\<rparr>)
         (first_occurrences (map event (filter needs_surface hooks)))"
  unfolding getEmulationTools_def group_hooks_eq
  by (simp add: slugEvent_kebab buildToolSchema_cases comp_def)

lemma buildToolDescription_eq:
  "buildToolDescription ev hs =
     ''[ai-ext hook emulation] Call this BEFORE '' @ event_name ev @ '' to check: ''
       @ (if \<exists>h\<in>set hs. md_description (metadata h) \<noteq> []
          then join ''; '' (filter (\<lambda>d. d \<noteq> []) (map (\<lambda>h. md_description (metadata h)) hs))
          else join '', '' (map (\<lambda>h. md_name (metadata h)) hs))
       @ ''. Returns {allowed: boolean, reason?: string}.''"
proof -
  let ?ds = "filter (\<lambda>d. d \<noteq> []) (map (\<lambda>h. md_description (metadata h)) hs)"
  have "join ''; '' ?ds = [] \<longleftrightarrow> ?ds = []"
    by (rule join_empty_iff) simp
  moreover have "?ds = [] \<longleftrightarrow> \<not> (\<exists>h\<in>set hs. md_description (metadata h) \<noteq> [])"
    by (auto simp: filter_empty_conv)
  ultimately show ?thesis
    by (auto simp: buildToolDescription_def str_or_def Let_def)
qed

lemma run_handlers_append:
  "run_handlers e args t0 (xs @ ys) =
     (case run_handlers e args t0 xs of
        (Some r, t) \<Rightarrow> (Some r, t)
      | (None, t) \<Rightarrow> run_handlers e args t ys)"
  by (induction xs arbitrary: t0) (auto simp: Let_def)

lemma run_hooks_concat:
  "run_hooks e args t0 hooks = run_handlers e args t0 (concat (map handlers hooks))"
  by (induction hooks arbitrary: t0) (auto simp: run_handlers_append split: prod.splits option.splits)

lemma run_handlers_spec:
  "run_handlers e args t0 hs = (ro, t) \<Longrightarrow>
   \<exists>k\<le>length hs. t = t0 @ take k hs \<and>
     (\<forall>i<k. i + 1 < k \<or> ro = None \<longrightarrow> allowed (executeHandler e (t0 @ take i hs) (hs ! i) args)) \<and>
     (case ro of
        None \<Rightarrow> k = length hs
      | Some r \<Rightarrow> 0 < k \<and> r = executeHandler e (t0 @ take (k - 1) hs) (hs ! (k - 1)) args
                  \<and> \<not> allowed r)"
proof (induction hs arbitrary: t0)
  case Nil
  then show ?case by auto
next
  case (Cons h hs)
  show ?case
  proof (cases "allowed (executeHandler e t0 h args)")
    case False
    with Cons.prems have "ro = Some (executeHandler e t0 h args)" "t = t0 @ [h]"
      by (auto simp: Let_def)
    with False show ?thesis
      by (intro exI[of _ 1]) auto
  next
    case True
    with Cons.prems have "run_handlers e args (t0 @ [h]) hs = (ro, t)"
      by (auto simp: Let_def)
    from Cons.IH[OF this] obtain k where k: "k \<le> length hs" "t = (t0 @ [h]) @ take k hs"
      "\<forall>i<k. i + 1 < k \<or> ro = None \<longrightarrow>
          allowed (executeHandler e ((t0 @ [h]) @ take i hs) (hs ! i) args)"
      "case ro of None \<Rightarrow> k = length hs
       | Some r \<Rightarrow> 0 < k \<and> r = executeHandler e ((t0 @ [h]) @ take (k - 1) hs) (hs ! (k - 1)) args
                   \<and> \<not> allowed r"
      by blast
    have a: "\<forall>i<Suc k. i + 1 < Suc k \<or> ro = None \<longrightarrow>
          allowed (executeHandler e (t0 @ take i (h # hs)) ((h # hs) ! i) args)"
    proof (intro allI impI)
      fix i assume i: "i < Suc k" "i + 1 < Suc k \<or> ro = None"
      show "allowed (executeHandler e (t0 @ take i (h # hs)) ((h # hs) ! i) args)"
      proof (cases i)
        case 0
        then show ?thesis using True by simp
      next
        case (Suc j)
        then have "j < k" "j + 1 < k \<or> ro = None" using i by auto
        with k(3) have "allowed (executeHandler e ((t0 @ [h]) @ take j hs) (hs ! j) args)"
          by blast
        then show ?thesis using Suc by simp
      qed
    qed
    have b: "case ro of None \<Rightarrow> Suc k = length (h # hs)
       | Some r \<Rightarrow> 0 < Suc k
            \<and> r = executeHandler e (t0 @ take (Suc k - 1) (h # hs)) ((h # hs) ! (Suc k - 1)) args
            \<and> \<not> allowed r"
    proof (cases ro)
      case None
      then show ?thesis using k(4) by simp
    next
      case (Some r)
      with k(4) obtain k' where "k = Suc k'" by (cases k) auto
      with Some k(4) show ?thesis by auto
    qed
    show ?thesis
      using k(1,2) a b by (intro exI[of _ "Suc k"]) simp
  qed
qed

lemma hook_matches_selected:
  assumes "args_toolName args = Some subject" "subject \<noteq> []"
      and "\<forall>m. matcher h = Some m \<longrightarrow> regexp e m \<noteq> None"
  shows "hook_matches e ev args h = Inr (hook_selected e ev subject h)"
  using assms
  by (auto simp: hook_matches_def hook_selected_def split: option.splits)

lemma filter_hooks_selected:
  assumes "args_toolName args = Some subject" "subject \<noteq> []"
      and "\<forall>h\<in>set hooks. \<forall>m. matcher h = Some m \<longrightarrow> regexp e m \<noteq> None"
  shows "filter_hooks e ev args hooks = Inr (filter (hook_selected e ev subject) hooks)"
  using assms(3)
  by (induction hooks) (simp_all add: hook_matches_selected[OF assms(1,2)])

lemma probe_name_roundtrip:
  "slugToEvent (replace_first ''ai-ext_hook_'' [] (probe_name ev)) = event_name ev"
  by (cases ev)
     (simp_all add: probe_name_def slugToEvent_def capitalize_def toUpperChar_def
        upper_letters_def lower_letters_def)

lemma executeEmulatedHook_general:
  assumes "toolName a = Some subject" "subject \<noteq> []"
      and "\<forall>h\<in>set hooks. \<forall>m. matcher h = Some m \<longrightarrow> regexp e m \<noteq> None"
      and "ev = slugToEvent (replace_first ''ai-ext_hook_'' [] name)"
      and "selected = filter (hook_selected e ev subject) hooks"
      and "hs = concat (map handlers selected)"
  shows "\<exists>r t k. executeEmulatedHook e hooks name (Some a) = Inr (r, t) \<and>
      (if selected = [] then
         r = \<lparr>allowed = True, reason = Some ''No matching hooks'', rcontext = None\<rparr> \<and> t = []
       else
         k \<le> length hs \<and> t = take k hs \<and>
         (\<forall>i<k. i + 1 < k \<longrightarrow> allowed (result_at e (Some a) hs i)) \<and>
         (if allowed r
          then k = length hs \<and> r = \<lparr>allowed = True, reason = None, rcontext = None\<rparr>
               \<and> (\<forall>i<k. allowed (result_at e (Some a) hs i))
          else 0 < k \<and> r = result_at e (Some a) hs (k - 1)))"
proof -
  have f: "filter_hooks e ev (Some a) hooks = Inr selected"
    using filter_hooks_selected[of "Some a" subject hooks e ev] assms
    by (simp add: args_toolName_def)
  show ?thesis
  proof (cases "selected = []")
    case True
    then show ?thesis using f assms(4)
      by (simp add: executeEmulatedHook_def Let_def)
  next
    case False
    obtain ro t where run: "run_handlers e (Some a) [] hs = (ro, t)"
      by (cases "run_handlers e (Some a) [] hs") auto
    from run_handlers_spec[OF run, unfolded append_Nil, folded result_at_def]
    obtain k where k: "k \<le> length hs" "t = take k hs"
      "\<forall>i<k. i + 1 < k \<or> ro = None \<longrightarrow> allowed (result_at e (Some a) hs i)"
      "case ro of None \<Rightarrow> k = length hs
       | Some r \<Rightarrow> 0 < k \<and> r = result_at e (Some a) hs (k - 1) \<and> \<not> allowed r"
      by blast
    have rh: "run_hooks e (Some a) [] selected = (ro, t)"
      using run assms(6) by (simp add: run_hooks_concat)
    show ?thesis
    proof (cases ro)
      case None
      then have "executeEmulatedHook e hooks name (Some a)
          = Inr (\<lparr>allowed = True, reason = None, rcontext = None\<rparr>, t)"
        using f False rh assms(4) by (simp add: executeEmulatedHook_def Let_def)
      then show ?thesis using False k None
        by (intro exI[of _ "\<lparr>allowed = True, reason = None, rcontext = None\<rparr>"] exI[of _ t] exI[of _ k])
           simp
    next
      case (Some r)
      then have "executeEmulatedHook e hooks name (Some a) = Inr (r, t)"
        using f False rh assms(4) by (simp add: executeEmulatedHook_def Let_def)
      moreover have "\<not> allowed r" "0 < k" "r = result_at e (Some a) hs (k - 1)"
        using k(4) Some by auto
      ultimately show ?thesis using False k(1,2,3)
        by (intro exI[of _ r] exI[of _ t] exI[of _ k]) simp
    qed
  qed
qed








section \<open>Running a command handler\<close>

text \<open>
  Claim C2, as the program has it. A handler of type \<open>command\<close> with a command line is
  decided by the exit code of its child only when no step of running it throws: then
  exit code 0 allows and attaches the standard output, when there is any, as context;
  exit code 2 denies, the reason being the standard error, else the standard output,
  else a fixed message; every other exit code allows with a warning that names the
  code. An exception at any step (starting the process, writing its input, waiting for
  its exit, reading its standard output, reading its standard error after exit code 2)
  comes first: it is caught and becomes an allow with the exception's message as the
  reason, whatever the exit code of the child. So the result is a decision in every
  case, and it is a deny exactly when no step throws and the exit code is 2.
\<close>

theorem executeHandler_exit_code_decision:
  assumes "htype h = Command" and "command h = Some cmd" and "cmd \<noteq> []"
      and "p = spawn e t cmd args"
  shows "(\<forall>m. spawn_error p = Some m
              \<or> (spawn_error p = None \<and> stdin_error p = Some m)
              \<or> (spawn_error p = None \<and> stdin_error p = None \<and> exited p = Inl m)
              \<or> (spawn_error p = None \<and> stdin_error p = None \<and> (\<exists>code. exited p = Inr code)
                    \<and> stdout_text p = Inl m)
              \<or> (spawn_error p = None \<and> stdin_error p = None \<and> exited p = Inr 2
                    \<and> (\<exists>out. stdout_text p = Inr out) \<and> stderr_text p = Inl m) \<longrightarrow>
            executeHandler e t h args =
              \<lparr>allowed = True, reason = Some (''Hook execution error: '' @ m), rcontext = None\<rparr>)
       \<and> (\<forall>code out. spawn_error p = None \<and> stdin_error p = None \<and> exited p = Inr code
              \<and> stdout_text p = Inr out \<longrightarrow>
            (code = 0 \<longrightarrow>
               executeHandler e t h args =
                 \<lparr>allowed = True, reason = None, rcontext = (if out = [] then None else Some out)\<rparr>)
          \<and> (code = 2 \<longrightarrow> (\<forall>err. stderr_text p = Inr err \<longrightarrow>
               executeHandler e t h args =
                 \<lparr>allowed = False,
                  reason = Some (if err \<noteq> [] then err else if out \<noteq> [] then out
                                 else ''Hook blocked the action''),
                  rcontext = None\<rparr>))
          \<and> (code \<noteq> 0 \<and> code \<noteq> 2 \<longrightarrow>
               executeHandler e t h args =
                 \<lparr>allowed = True, reason = Some (''Hook warning: exit code '' @ show_int code),
                  rcontext = None\<rparr>))
       \<and> (\<not> allowed (executeHandler e t h args) \<longleftrightarrow>
            spawn_error p = None \<and> stdin_error p = None \<and> exited p = Inr 2
          \<and> (\<exists>out. stdout_text p = Inr out) \<and> (\<exists>err. stderr_text p = Inr err))"
proof -
  have c: "\<And>m. allowed (caught m)" by (simp add: caught_def)
  show ?thesis
    using assms(1,2,3) c
    unfolding assms(4)
    by (auto simp: executeHandler_def caught_def str_or_def Let_def
             split: option.splits sum.splits)
qed

theorem executeHandler_exit_code_decision_witness:
  "executeHandler demo_env [] (cmd_handler ''exit 0'') None =
     \<lparr>allowed = True, reason = None, rcontext = Some ''ok''\<rparr>
   \<and> executeHandler demo_env [] (cmd_handler ''exit 2'') None =
     \<lparr>allowed = False, reason = Some ''blocked'', rcontext = None\<rparr>
   \<and> executeHandler demo_env [] (cmd_handler ''exit 7'') None =
     \<lparr>allowed = True, reason = Some ''Hook warning: exit code 7'', rcontext = None\<rparr>
   \<and> executeHandler demo_env [] (cmd_handler ''nope'') None =
     \<lparr>allowed = True, reason = Some ''Hook execution error: spawn failed'', rcontext = None\<rparr>"
  using executeHandler_exit_code_decision
          [of "cmd_handler ''exit 0''" "''exit 0''" "spawn demo_env [] ''exit 0'' None" demo_env "[]" None]
        executeHandler_exit_code_decision
          [of "cmd_handler ''exit 2''" "''exit 2''" "spawn demo_env [] ''exit 2'' None" demo_env "[]" None]
        executeHandler_exit_code_decision
          [of "cmd_handler ''exit 7''" "''exit 7''" "spawn demo_env [] ''exit 7'' None" demo_env "[]" None]
        executeHandler_exit_code_decision
          [of "cmd_handler ''nope''" "''nope''" "spawn demo_env [] ''nope'' None" demo_env "[]" None]
  by (simp add: demo_env_def ran_def cmd_handler_def show_int_def show_nat.simps digit_char_def)

text \<open>
  As the claim states it, the exit code of the child determines the decision, and exit
  code 2 denies. Here the child ends with exit code 2 and \<open>blocked\<close> on its standard
  error, as in the scenario of the specification, but writing the arguments to its
  input throws: the exception is caught first, and the result is an allow.
\<close>

theorem executeHandler_exit_code_counterexample:
  "exited (spawn demo_env [] ''exit 2 deaf'' None) = Inr 2
   \<and> stderr_text (spawn demo_env [] ''exit 2 deaf'' None) = Inr ''blocked''
   \<and> executeHandler demo_env [] (cmd_handler ''exit 2 deaf'') None =
       \<lparr>allowed = True, reason = Some ''Hook execution error: write EPIPE'', rcontext = None\<rparr>"
  by (simp add: executeHandler_def caught_def demo_env_def ran_def cmd_handler_def)

section \<open>The probe surface\<close>

text \<open>
  Claim C6, as the program has it. The probe operations are those of the hooks whose
  fallback strategy is neither \<open>ignore\<close> nor \<open>skill-injection\<close>: one operation for each
  event of these hooks, in the order in which the events first occur. Its name is
  \<open>ai-ext_hook_\<close> followed by the event name in kebab case, its description is built
  from the descriptions of the hooks of the group, or from their names when none has a
  description, and its input shape requires a subject name for \<open>PreToolUse\<close>,
  \<open>PostToolUse\<close> and \<open>PostToolUseFailure\<close>, takes a free text for \<open>UserPromptSubmit\<close>
  and an opaque context string for every other event, \<open>PermissionRequest\<close> among them.
\<close>

theorem getEmulationTools_surface:
  "getEmulationTools hooks =
     map (\<lambda>ev. \<lparr>tool_name = ''ai-ext_hook_'' @ kebab_case_name ev,
                tool_description =
                  buildToolDescription ev (filter (\<lambda>h. event h = ev) (filter needs_surface hooks)),
                inputSchema =
                  (if ev = PreToolUse \<or> ev = PostToolUse \<or> ev = PostToolUseFailure
                   then subject_schema
                   else if ev = UserPromptSubmit then prompt_schema else context_schema)\<rparr>)
         (first_occurrences (map event (filter needs_surface hooks)))
   \<and> buildToolDescription ev' hs =
       ''[ai-ext hook emulation] Call this BEFORE '' @ event_name ev' @ '' to check: ''
         @ (if \<exists>h\<in>set hs. md_description (metadata h) \<noteq> []
            then join ''; '' (filter (\<lambda>d. d \<noteq> []) (map (\<lambda>h. md_description (metadata h)) hs))
            else join '', '' (map (\<lambda>h. md_name (metadata h)) hs))
         @ ''. Returns {allowed: boolean, reason?: string}.''"
  using getEmulationTools_eq [of hooks] buildToolDescription_eq [of ev' hs]
  by blast

theorem getEmulationTools_surface_witness:
  "map (\<lambda>t. (tool_name t, required (inputSchema t)))
     (getEmulationTools
        [demo_hook ''lint'' PreToolUse (Some ''Edit'') [''exit 0''] (Some McpTool),
         demo_hook ''quiet'' SessionStart None [''exit 0''] (Some Ignore),
         demo_hook ''note'' UserPromptSubmit None [''exit 0''] None,
         demo_hook ''fmt'' PreToolUse None [''exit 0''] None,
         demo_hook ''fold'' Stop None [''exit 0''] (Some SkillInjection)])
   = [(''ai-ext_hook_pre-tool-use'', Some [''toolName'']),
      (''ai-ext_hook_user-prompt-submit'', None)]"
  using getEmulationTools_surface
    [of "[demo_hook ''lint'' PreToolUse (Some ''Edit'') [''exit 0''] (Some McpTool),
         demo_hook ''quiet'' SessionStart None [''exit 0''] (Some Ignore),
         demo_hook ''note'' UserPromptSubmit None [''exit 0''] None,
         demo_hook ''fmt'' PreToolUse None [''exit 0''] None,
         demo_hook ''fold'' Stop None [''exit 0''] (Some SkillInjection)]" PreToolUse "[]"]
  by (simp add: demo_hook_def needs_surface_def fallback_strategy_def first_occurrences_def
        subject_schema_def prompt_schema_def context_schema_def comp_def)

text \<open>
  As the claim states it, every tool-lifecycle event has an input shape that requires a
  subject name. \<open>PermissionRequest\<close> is declared among the tool-lifecycle events, and
  the probe operation of a hook on it takes the context string and requires nothing.
\<close>

theorem getEmulationTools_surface_counterexample:
  "tool_lifecycle_event PermissionRequest
   \<and> map (\<lambda>t. (tool_name t, map fst (properties (inputSchema t)), required (inputSchema t)))
       (getEmulationTools [demo_hook ''ask'' PermissionRequest (Some ''Bash'') [''exit 2''] (Some McpTool)])
     = [(''ai-ext_hook_permission-request'', [''context''], None)]"
  by (simp add: tool_lifecycle_event_def getEmulationTools_def group_step_def
        fallback_strategy_def demo_hook_def buildToolSchema_def slugEvent_def toLowerCase_def
        toLowerChar_def is_upper_def upper_letters_def lower_letters_def)

section \<open>Executing a probe operation\<close>

text \<open>
  Claim C7. A probe operation invoked with a subject name runs the handlers of the
  selected hooks only: the hooks of the operation's event whose matcher, if there is
  one, matches the subject (a hook without matcher is always selected). The handlers
  of the selected hooks run in sequence, in the order of the hooks, and the run stops at
  the first deny, which is the result; when every handler allows, all of them have run
  and the result is a plain allow. When no hook is selected nothing runs and the result
  is an allow with the reason \<open>No matching hooks\<close>. The matchers are taken to be
  regular expressions of the host.
\<close>

theorem executeEmulatedHook_selects_matching:
  assumes "toolName a = Some subject" and "subject \<noteq> []"
      and "\<forall>h\<in>set hooks. \<forall>m. matcher h = Some m \<longrightarrow> regexp e m \<noteq> None"
      and "selected = filter (hook_selected e (event_name ev) subject) hooks"
      and "hs = concat (map handlers selected)"
  shows "\<exists>r t k. executeEmulatedHook e hooks (probe_name ev) (Some a) = Inr (r, t) \<and>
      (if selected = [] then
         r = \<lparr>allowed = True, reason = Some ''No matching hooks'', rcontext = None\<rparr> \<and> t = []
       else
         k \<le> length hs \<and> t = take k hs \<and>
         (\<forall>i<k. i + 1 < k \<longrightarrow> allowed (result_at e (Some a) hs i)) \<and>
         (if allowed r
          then k = length hs \<and> r = \<lparr>allowed = True, reason = None, rcontext = None\<rparr>
               \<and> (\<forall>i<k. allowed (result_at e (Some a) hs i))
          else 0 < k \<and> r = result_at e (Some a) hs (k - 1)))"
  using executeEmulatedHook_general [OF assms(1,2,3) _ _ assms(5), of "event_name ev" "probe_name ev"]
        assms(4) probe_name_roundtrip [of ev]
  by simp

theorem executeEmulatedHook_selects_matching_witness:
  "executeEmulatedHook demo_env
     [demo_hook ''guard-edit'' PreToolUse (Some ''Edit'') [''exit 2'', ''exit 0''] None,
      demo_hook ''guard-bash'' PreToolUse (Some ''Bash'') [''exit 0''] None,
      demo_hook ''always'' PreToolUse None [''exit 7''] None,
      demo_hook ''other'' PostToolUse None [''exit 2''] None]
     ''ai-ext_hook_pre-tool-use'' (Some \<lparr>toolName = Some ''Bash'', other_args = []\<rparr>)
   = Inr (\<lparr>allowed = True, reason = None, rcontext = None\<rparr>,
          [cmd_handler ''exit 0'', cmd_handler ''exit 7''])"
proof -
  let ?hooks = "[demo_hook ''guard-edit'' PreToolUse (Some ''Edit'') [''exit 2'', ''exit 0''] None,
      demo_hook ''guard-bash'' PreToolUse (Some ''Bash'') [''exit 0''] None,
      demo_hook ''always'' PreToolUse None [''exit 7''] None,
      demo_hook ''other'' PostToolUse None [''exit 2''] None]"
  let ?a = "\<lparr>toolName = Some ''Bash'', other_args = []\<rparr>"
  have h1: "toolName ?a = Some ''Bash''" by simp
  have h2: "''Bash'' \<noteq> []" by simp
  have h3: "\<forall>h\<in>set ?hooks. \<forall>m. matcher h = Some m \<longrightarrow> regexp demo_env m \<noteq> None"
    by (simp add: demo_env_def)
  note inst = executeEmulatedHook_selects_matching [OF h1 h2 h3 refl refl, of PreToolUse]
  have run: "executeEmulatedHook demo_env ?hooks ''ai-ext_hook_pre-tool-use'' (Some ?a)
     = Inr (\<lparr>allowed = True, reason = None, rcontext = None\<rparr>,
            [cmd_handler ''exit 0'', cmd_handler ''exit 7''])"
    by (simp add: executeEmulatedHook_def slugToEvent_def capitalize_def toUpperChar_def
          upper_letters_def lower_letters_def hook_matches_def
          args_toolName_def demo_hook_def executeHandler_def cmd_handler_def demo_env_def
          ran_def Let_def show_int_def show_nat.simps digit_char_def)
  from inst run show ?thesis
    by blast
qed

section \<open>Execution does not read the fallback strategy\<close>




section \<open>The two conventions for tool access\<close>

lemma split_spaces_word:
  "\<forall>c\<in>set n. \<not> is_space c \<Longrightarrow> split_spaces cur (n @ rest) = split_spaces (cur @ n) rest"
  by (induction n arbitrary: cur) auto

lemma dropWhile_join_id:
  assumes "\<forall>n\<in>set (y # ys). n \<noteq> [] \<and> (\<forall>c\<in>set n. \<not> is_space c)"
  shows "dropWhile is_space (join '' '' (y # ys)) = join '' '' (y # ys)"
proof -
  obtain c cs where y: "y = c # cs" using assms by (cases y) auto
  then have "\<not> is_space c" using assms by auto
  then show ?thesis using y by (cases ys) auto
qed

lemma is_space_blank: "is_space CHR '' ''"
  by (simp add: is_space_def)

lemma tokens_join:
  assumes "\<forall>n\<in>set names. n \<noteq> [] \<and> (\<forall>c\<in>set n. \<not> is_space c)" and "names \<noteq> []"
  shows "filter (\<lambda>w. w \<noteq> []) (split_spaces [] (join '' '' names)) = names"
  using assms
proof (induction "'' ''" names rule: join.induct)
  case 1
  then show ?case by simp
next
  case (2 x)
  then show ?case using split_spaces_word[of x "[]" "[]"] by simp
next
  case (3 x y ys)
  have a: "split_spaces [] (x @ '' '' @ join '' '' (y # ys))
      = x # split_spaces [] (join '' '' (y # ys))"
    using 3(2) split_spaces_word[of x "[]" "'' '' @ join '' '' (y # ys)"]
      dropWhile_join_id[of y ys] is_space_blank
    by simp
  show ?case using 3 a by simp
qed

lemma join_nonempty:
  "names \<noteq> [] \<Longrightarrow> \<forall>n\<in>set names. n \<noteq> [] \<Longrightarrow> join sep names \<noteq> []"
  by (induction sep names rule: join.induct) auto

text \<open>
  Claim C4, as the program has it. Take a non-empty list of tool names, each non-empty
  and free of whitespace. A metadata block that gives them as the space-delimited
  string of \<open>allowed-tools\<close> and a block that gives them as the \<open>allowed\<close> array of a
  \<open>tools\<close> object (with no \<open>disallowed\<close> list and no \<open>allowed-tools\<close> string) yield
  the same tool access: the names, in their order, as the allowed list and no
  disallowed list.
\<close>

theorem extractToolAccess_conventions_agree:
  assumes "names \<noteq> []"
      and "\<forall>n\<in>set names. n \<noteq> [] \<and> (\<forall>c\<in>set n. \<not> is_space c)"
      and "get_prop fm1 ''allowed-tools'' = JStr (join '' '' names)"
      and "\<not> truthy (get_prop fm2 ''allowed-tools'')" and "\<not> truthy (get_prop fm2 ''allowedTools'')"
      and "get_prop fm2 ''tools'' = JObj tools"
      and "get_prop (JObj tools) ''allowed'' = JArr (map JStr names)"
      and "get_prop (JObj tools) ''disallowed'' = JUndefined"
  shows "ToolAccess_fields (extractToolAccess fm1) = ToolAccess_fields (extractToolAccess fm2)
       \<and> ToolAccess_fields (extractToolAccess fm1) = Some (JArr (map JStr names), JUndefined)"
proof -
  have ne: "join '' '' names \<noteq> []"
    using assms(1,2) by (intro join_nonempty) auto
  have 1: "extractToolAccess fm1 = JObj [(''allowed'', JArr (map JStr names))]"
    using assms(3) ne tokens_join[OF assms(2,1)]
    by (simp add: extractToolAccess_def js_or_def Let_def)
  have 2: "extractToolAccess fm2 = JObj [(''allowed'', JArr (map JStr names)), (''disallowed'', JUndefined)]"
    using assms(4-8)
    by (simp add: extractToolAccess_def js_or_def Let_def del: get_prop.simps)
  show ?thesis
    by (simp add: 1 2 ToolAccess_fields_def)
qed

theorem extractToolAccess_conventions_agree_witness:
  "ToolAccess_fields (extractToolAccess
      (JObj [(''name'', JStr ''review''), (''allowed-tools'', JStr ''Read Grep Glob'')]))
   = ToolAccess_fields (extractToolAccess
      (JObj [(''name'', JStr ''review''),
             (''tools'', JObj [(''allowed'', JArr [JStr ''Read'', JStr ''Grep'', JStr ''Glob''])])]))"
proof -
  have h1: "[''Read'', ''Grep'', ''Glob''] \<noteq> []" by simp
  have h2: "\<forall>n\<in>set [''Read'', ''Grep'', ''Glob'']. n \<noteq> [] \<and> (\<forall>c\<in>set n. \<not> is_space c)"
    by (simp add: is_space_def)
  show ?thesis
    using extractToolAccess_conventions_agree [OF h1 h2,
        of "JObj [(''name'', JStr ''review''), (''allowed-tools'', JStr ''Read Grep Glob'')]"
           "JObj [(''name'', JStr ''review''),
             (''tools'', JObj [(''allowed'', JArr [JStr ''Read'', JStr ''Grep'', JStr ''Glob''])])]"
           "[(''allowed'', JArr [JStr ''Read'', JStr ''Grep'', JStr ''Glob''])]"]
    by simp
qed

text \<open>
  As the claim states it, the two conventions agree for every list of names. For the
  empty list they do not: the space-delimited string of no names is the empty string,
  which is falsy, so the first block has no tool access at all, and the second has one
  with an empty allowed list.
\<close>

theorem extractToolAccess_conventions_counterexample:
  "ToolAccess_fields (extractToolAccess (JObj [(''allowed-tools'', JStr (join '' '' []))])) = None
   \<and> ToolAccess_fields (extractToolAccess (JObj [(''tools'', JObj [(''allowed'', JArr (map JStr []))])]))
       = Some (JArr [], JUndefined)"
  by (simp add: extractToolAccess_def js_or_def ToolAccess_fields_def)

section \<open>Hooks on a host without native hooks\<close>

lemma digit_value_digit_char: "d < 10 \<Longrightarrow> digit_value (digit_char d) = Some d"
proof -
  assume "d < 10"
  then have "d \<in> {0,1,2,3,4,5,6,7,8,9}" by auto
  then show ?thesis
    by (auto simp: digit_value_def digit_char_def)
qed

lemma leading_digits_append:
  "\<forall>c\<in>set s. digit_value c \<noteq> None \<Longrightarrow>
   leading_digits (s @ t) = map (\<lambda>c. the (digit_value c)) s @ leading_digits t"
  by (induction s) auto

lemma show_nat_digits: "\<forall>c\<in>set (show_nat n). digit_value c \<noteq> None"
proof (induction n rule: show_nat.induct)
  case (1 n)
  show ?case
  proof (cases "n < 10")
    case True
    then show ?thesis by (simp add: show_nat.simps[of n] digit_value_digit_char)
  next
    case False
    have "n mod 10 < 10" by simp
    then show ?thesis using False 1
      by (auto simp: show_nat.simps[of n] digit_value_digit_char)
  qed
qed

lemma show_nat_value:
  "foldl (\<lambda>acc d. 10 * acc + d) 0 (map (\<lambda>c. the (digit_value c)) (show_nat n)) = n"
proof (induction n rule: show_nat.induct)
  case (1 n)
  show ?case
  proof (cases "n < 10")
    case True
    then show ?thesis by (simp add: show_nat.simps[of n] digit_value_digit_char)
  next
    case False
    have "n mod 10 < 10" by simp
    then show ?thesis using False 1
      by (simp add: show_nat.simps[of n] digit_value_digit_char)
  qed
qed

lemma leading_number_show_nat:
  "leading_digits t = [] \<Longrightarrow> leading_number (show_nat n @ t) = n"
  by (simp add: leading_number_def leading_digits_append show_nat_digits show_nat_value)

lemma policy_step_fst:
  "fst (policy_step R (fs, ws) p) = fst (policy_step R (fs, ws') p)"
  by (simp add: policy_step_def Let_def split: option.splits)

lemma foldl_policy_fst:
  "fst (foldl (policy_step R) (fs, ws) ps) = fst (foldl (policy_step R) (fs, ws') ps)"
proof (induction ps arbitrary: fs ws ws')
  case Nil
  show ?case by simp
next
  case (Cons p ps)
  obtain f1 w1 where a: "policy_step R (fs, ws) p = (f1, w1)"
    by (cases "policy_step R (fs, ws) p") auto
  obtain f2 w2 where b: "policy_step R (fs, ws') p = (f2, w2)"
    by (cases "policy_step R (fs, ws') p") auto
  have "f1 = f2" using policy_step_fst[of R fs ws p ws'] a b by simp
  then show ?case using Cons[of f1 w1 w2] a b by simp
qed

lemma kilocode_files_hooks:
  "files (kilocode_compile R (ir\<lparr>ir_hooks := hs\<rparr>)) = files (kilocode_compile R ir)"
proof -
  have e: "emit_skills_agents_rules R (ir\<lparr>ir_hooks := hs\<rparr>) = emit_skills_agents_rules R ir"
    by (simp add: emit_skills_agents_rules_def Let_def)
  show ?thesis
    unfolding kilocode_compile_def Let_def e
    using foldl_policy_fst by (simp, metis)
qed

text \<open>
  Claim C5. When the extension has a hook whose fallback strategy is \<open>mcp-tool\<close>, the
  KiloCode adapter gives a non-empty list of compensation requirements, with an entry
  for the hook engine whose reason starts with the number of hooks of the extension;
  and no file of its output stems from a hook: the files are the same whatever the
  hooks are.
\<close>

theorem kilocode_hook_compensation:
  assumes "\<exists>h\<in>set (ir_hooks ir). fallback_strategy h = Some McpTool"
  shows "runtimeRequirements (kilocode_compile R ir) \<noteq> []
    \<and> (\<exists>r\<in>set (runtimeRequirements (kilocode_compile R ir)).
          feature r = ''hook-engine'' \<and> rq_component r = ''hooks''
        \<and> rq_reason r = show_nat (length (ir_hooks ir))
             @ '' hook(s) require runtime emulation (KiloCode has no native hook support)''
        \<and> leading_number (rq_reason r) = length (ir_hooks ir))
    \<and> (\<forall>hs. files (kilocode_compile R (ir\<lparr>ir_hooks := hs\<rparr>)) = files (kilocode_compile R ir))"
proof -
  have ne: "length (ir_hooks ir) > 0" using assms by auto
  have ld: "leading_digits '' hook(s) require runtime emulation (KiloCode has no native hook support)'' = []"
    by (simp add: digit_value_def)
  have rq: "runtimeRequirements (kilocode_compile R ir) =
      \<lparr>feature = ''hook-engine'',
        rq_reason = show_nat (length (ir_hooks ir))
           @ '' hook(s) require runtime emulation (KiloCode has no native hook support)'',
        rq_component = ''hooks''\<rparr> # emitTools_requirements (ir_tools ir)"
    using ne by (simp add: kilocode_compile_def Let_def)
  show ?thesis
    unfolding rq using leading_number_show_nat[OF ld] kilocode_files_hooks
    by simp
qed

theorem kilocode_hook_compensation_witness:
  "runtimeRequirements (kilocode_compile demo_renderers demo_ir) =
     [\<lparr>feature = ''hook-engine'',
       rq_reason = ''2 hook(s) require runtime emulation (KiloCode has no native hook support)'',
       rq_component = ''hooks''\<rparr>]
   \<and> leading_number ''2 hook(s) require runtime emulation (KiloCode has no native hook support)'' = 2
   \<and> files (kilocode_compile demo_renderers demo_ir) = []"
proof -
  have h: "\<exists>h\<in>set (ir_hooks demo_ir). fallback_strategy h = Some McpTool"
    by (simp add: demo_ir_def demo_hook_def fallback_strategy_def)
  have n: "show_nat 2 = ''2''"
    by (simp add: show_nat.simps digit_char_def)
  have l: "length (ir_hooks demo_ir) = 2"
    by (simp add: demo_ir_def)
  have rq: "runtimeRequirements (kilocode_compile demo_renderers demo_ir) =
     [\<lparr>feature = ''hook-engine'',
       rq_reason = ''2 hook(s) require runtime emulation (KiloCode has no native hook support)'',
       rq_component = ''hooks''\<rparr>]"
    by (simp add: kilocode_compile_def Let_def l n emitTools_requirements_def mcpTools_def)
       (simp add: demo_ir_def)
  have fs: "files (kilocode_compile demo_renderers demo_ir) = []"
    by (simp add: kilocode_compile_def Let_def emit_skills_agents_rules_def mcpTools_def demo_ir_def)
  from kilocode_hook_compensation [OF h, of demo_renderers] rq fs
  show ?thesis
    by (simp add: l n)
qed

section \<open>Lemmas on the resolver\<close>

lemma parseMarkdownFile_local:
  "d' f = d f \<Longrightarrow> fst (parseMarkdownFile w fx d' f) = fst (parseMarkdownFile w fx d f)"
  by (simp add: parseMarkdownFile_def Let_def split: option.splits sum.splits prod.splits)

lemma parseMarkdownFile_frame:
  "g \<noteq> f \<Longrightarrow> snd (parseMarkdownFile w fx d f) g = d g"
  by (simp add: parseMarkdownFile_def Let_def split: option.splits sum.splits prod.splits)



lemma kind_file_parts:
  "kind_file w fx k d f =
     (case fst (parseMarkdownFile w fx d f) of
        Inl m \<Rightarrow> ([failed_to_parse k f m], None, snd (parseMarkdownFile w fx d f))
      | Inr (fm, body) \<Rightarrow>
          (case parse_kind w k fm body of
             Inl m \<Rightarrow> ([failed_to_parse k f m], None, snd (parseMarkdownFile w fx d f))
           | Inr c \<Rightarrow>
               (collectErrors (k @ '':'' @ js_toString (get_prop (get_prop c ''metadata'') ''name''))
                      f (validate_kind w k c),
                Some c, snd (parseMarkdownFile w fx d f))))"
  by (cases "parseMarkdownFile w fx d f")
     (simp add: kind_file_def Let_def split: sum.splits prod.splits)


lemma kind_file_local: "file_local (kind_file w fx k)"
  unfolding file_local_def
proof (intro conjI allI impI)
  fix d d' :: disk and f assume "d' f = d f"
  then have "fst (parseMarkdownFile w fx d' f) = fst (parseMarkdownFile w fx d f)"
    by (rule parseMarkdownFile_local)
  then show "fst (kind_file w fx k d' f) = fst (kind_file w fx k d f)"
    and "fst (snd (kind_file w fx k d' f)) = fst (snd (kind_file w fx k d f))"
    by (simp_all add: kind_file_parts split: sum.splits prod.splits)
next
  fix d :: disk and f g :: path assume "g \<noteq> f"
  then show "snd (snd (kind_file w fx k d f)) g = d g"
    by (simp add: kind_file_parts parseMarkdownFile_frame split: sum.splits prod.splits)
qed










section \<open>Per-file resolution\<close>





section \<open>Lemmas on resolution and compilation\<close>

















section \<open>Resolving twice\<close>



section \<open>What resolution and compilation throw\<close>




section \<open>Failing fast\<close>




end
